theory Spec2Isabelle
  imports Complex_Main
begin

section \<open>Live-session recorder: data model\<close>

text \<open>
  The embedding follows \<^verbatim>\<open>src/storage/session_store.py\<close>. Python's unbounded \<^verbatim>\<open>int\<close> is
  \<^typ>\<open>int\<close>. A Python \<^verbatim>\<open>float\<close> is modelled by \<^typ>\<open>real\<close>: the arithmetic of the model is
  exact, so rounding, infinities and NaN are outside of it. Strings are \<^typ>\<open>string\<close>.
\<close>

record GiftEvent =
  timestamp :: real
  user_name :: string
  user_id :: string
  gift_id :: string
  gift_name :: string
  gift_count :: int
  gift_value :: real

record SessionStats =
  session_id :: "int option"
  room_id :: int
  start_time :: real
  gifts :: "GiftEvent list"
  total_gift_count :: int
  total_gift_value :: real
  gift_user_count :: int

text \<open>The dataclass constructor \<^verbatim>\<open>SessionStats(session_id=.., room_id=.., start_time=..)\<close>:
  the other fields take their defaults.\<close>

definition new_SessionStats :: "int option \<Rightarrow> int \<Rightarrow> real \<Rightarrow> SessionStats" where
  "new_SessionStats sid room t =
     \<lparr>session_id = sid, room_id = room, start_time = t, gifts = [],
      total_gift_count = 0, total_gift_value = 0, gift_user_count = 0\<rparr>"

subsection \<open>Python containers\<close>

text \<open>
  A \<^verbatim>\<open>dict\<close> keeps its keys in the order of their first insertion, and \<^verbatim>\<open>items()\<close> lists
  them in that order: an association list, where storing under a key that is present
  replaces the value in place and a new key goes to the end.
\<close>

definition dict_get :: "('k \<times> 'v) list \<Rightarrow> 'k \<Rightarrow> 'v \<Rightarrow> 'v" where
  "dict_get d k dflt = (case map_of d k of Some v \<Rightarrow> v | None \<Rightarrow> dflt)"

fun dict_set :: "'k \<Rightarrow> 'v \<Rightarrow> ('k \<times> 'v) list \<Rightarrow> ('k \<times> 'v) list" where
  "dict_set k v [] = [(k, v)]"
| "dict_set k v (p # d) = (if fst p = k then (k, v) # d else p # dict_set k v d)"

text \<open>
  \<^verbatim>\<open>sorted(xs, key=key, reverse=True)\<close>: descending by key, and stable (elements with equal
  keys keep the order they have in \<^verbatim>\<open>xs\<close>). An element is inserted in front of the sorted
  rest of the list, before the first element whose key is not larger than its own.
\<close>

fun insort_desc :: "('a \<Rightarrow> 'k::linorder) \<Rightarrow> 'a \<Rightarrow> 'a list \<Rightarrow> 'a list" where
  "insort_desc key x [] = [x]"
| "insort_desc key x (y # ys) =
     (if key y \<le> key x then x # y # ys else y # insort_desc key x ys)"

fun sorted_reverse :: "('a \<Rightarrow> 'k::linorder) \<Rightarrow> 'a list \<Rightarrow> 'a list" where
  "sorted_reverse key [] = []"
| "sorted_reverse key (x # xs) = insort_desc key x (sorted_reverse key xs)"

text \<open>The slice \<^verbatim>\<open>xs[:limit]\<close>: a negative bound counts from the end of the list.\<close>

definition slice_to :: "'a list \<Rightarrow> int \<Rightarrow> 'a list" where
  "slice_to xs limit =
     (if 0 \<le> limit then take (nat limit) xs
      else take (nat (int (length xs) + limit)) xs)"

section \<open>The session aggregate\<close>

definition stats_add_gift :: "SessionStats \<Rightarrow> GiftEvent \<Rightarrow> SessionStats" where
  "stats_add_gift self event =
     self\<lparr>gifts := gifts self @ [event],
          total_gift_count := total_gift_count self + gift_count event,
          total_gift_value :=
            total_gift_value self + gift_value event * of_int (gift_count event)\<rparr>"

text \<open>The loop of \<^verbatim>\<open>get_top_gifts\<close> and of \<^verbatim>\<open>get_top_users\<close>:
  \<^verbatim>\<open>d[key(g)] = d.get(key(g), 0) + val(g)\<close> for every event of the log, in order.\<close>

definition aggregate ::
  "('e \<Rightarrow> 'k) \<Rightarrow> ('e \<Rightarrow> 'v::comm_monoid_add) \<Rightarrow> 'e list \<Rightarrow> ('k \<times> 'v) list" where
  "aggregate key val events =
     fold (\<lambda>g d. dict_set (key g) (dict_get d (key g) 0 + val g) d) events []"

definition get_top_gifts :: "SessionStats \<Rightarrow> int \<Rightarrow> (string \<times> string \<times> int) list" where
  "get_top_gifts self limit =
     (let aggregated = aggregate (\<lambda>g. (user_name g, gift_name g)) gift_count (gifts self);
          sorted_items = sorted_reverse snd aggregated
      in map (\<lambda>(k, v). (fst k, snd k, v)) (slice_to sorted_items limit))"

definition get_top_users :: "SessionStats \<Rightarrow> int \<Rightarrow> (string \<times> real) list" where
  "get_top_users self limit =
     (let user_values =
            aggregate user_name (\<lambda>g. gift_value g * of_int (gift_count g)) (gifts self);
          sorted_users = sorted_reverse snd user_values
      in slice_to sorted_users limit)"

definition get_unique_users :: "SessionStats \<Rightarrow> string set" where
  "get_unique_users self = set (map user_name (gifts self))"

text \<open>
  \<^verbatim>\<open>list(unique_users)\<close> enumerates the set in an order that Python does not fix; the model
  lists each name once, in the order of the names' last events.
\<close>

definition unique_users_list :: "SessionStats \<Rightarrow> string list" where
  "unique_users_list self = remdups (map user_name (gifts self))"

section \<open>The summary document\<close>

text \<open>
  Python values as far as the summary needs them, and the documents of \<^verbatim>\<open>json\<close>.
  \<^verbatim>\<open>json.dumps\<close> writes a text and \<^verbatim>\<open>json.loads\<close> parses one; the model keeps the document
  that the text denotes. A tuple is written as an array, like a list, and an array is read
  back as a list.
\<close>

datatype pyval =
    PyNone
  | PyInt int
  | PyFloat real
  | PyStr string
  | PyTuple "pyval list"
  | PyList "pyval list"
  | PyDict "(string \<times> pyval) list"

datatype json =
    JNull
  | JInt int
  | JReal real
  | JString string
  | JArray "json list"
  | JObject "(string \<times> json) list"

primrec json_dumps :: "pyval \<Rightarrow> json" where
  "json_dumps PyNone = JNull"
| "json_dumps (PyInt i) = JInt i"
| "json_dumps (PyFloat x) = JReal x"
| "json_dumps (PyStr s) = JString s"
| "json_dumps (PyTuple vs) = JArray (map json_dumps vs)"
| "json_dumps (PyList vs) = JArray (map json_dumps vs)"
| "json_dumps (PyDict kvs) = JObject (map (map_prod id json_dumps) kvs)"

primrec json_loads :: "json \<Rightarrow> pyval" where
  "json_loads JNull = PyNone"
| "json_loads (JInt i) = PyInt i"
| "json_loads (JReal x) = PyFloat x"
| "json_loads (JString s) = PyStr s"
| "json_loads (JArray vs) = PyList (map json_loads vs)"
| "json_loads (JObject kvs) = PyDict (map (map_prod id json_loads) kvs)"

text \<open>The dictionary that \<^verbatim>\<open>end_session\<close> builds before it writes the session row.\<close>

definition summary_of :: "SessionStats \<Rightarrow> pyval" where
  "summary_of stats =
     PyDict
      [(''top_gifts'',
          PyList (map (\<lambda>(u, g, c). PyTuple [PyStr u, PyStr g, PyInt c]) (get_top_gifts stats 5))),
       (''top_users'',
          PyList (map (\<lambda>(u, v). PyTuple [PyStr u, PyFloat v]) (get_top_users stats 5))),
       (''unique_users'', PyList (map PyStr (unique_users_list stats)))]"

section \<open>The durable store\<close>

text \<open>
  The two tables of \<^verbatim>\<open>_init_db\<close>. A row is a record of its columns; \<^verbatim>\<open>created_at\<close> is left
  out, since no statement of the module reads it. A nullable column that the module reads
  as null is an \<^typ>\<open>'a option\<close>. Rows are kept in the order of their insertion, which is
  the order of their ids.
\<close>

record session_row =
  s_id :: int
  s_room_id :: int
  s_start_time :: real
  s_end_time :: "real option"
  s_duration :: real
  s_total_gift_count :: int
  s_total_gift_value :: real
  s_gift_user_count :: int
  s_summary_json :: "json option"

record gift_row =
  g_id :: int
  g_session_id :: int
  g_timestamp :: real
  g_user_name :: string
  g_user_id :: string
  g_gift_id :: string
  g_gift_name :: string
  g_gift_count :: int
  g_gift_value :: real

record database =
  sessions :: "session_row list"
  gift_rows :: "gift_row list"

definition empty_db :: database where
  "empty_db = \<lparr>sessions = [], gift_rows = []\<rparr>"

text \<open>\<^verbatim>\<open>INTEGER PRIMARY KEY AUTOINCREMENT\<close>: one more than the largest id of the table (no
  statement of the module deletes a row), and 1 in an empty table.\<close>

definition next_id :: "int list \<Rightarrow> int" where
  "next_id ids = fold max ids 0 + 1"

text \<open>\<^verbatim>\<open>SELECT id FROM sessions WHERE room_id = ? AND end_time IS NULL\<close> with \<^verbatim>\<open>fetchone()\<close>:
  the first such row.\<close>

definition select_open :: "int \<Rightarrow> database \<Rightarrow> session_row option" where
  "select_open room db =
     find (\<lambda>r. s_room_id r = room \<and> s_end_time r = None) (sessions db)"

text \<open>\<^verbatim>\<open>UPDATE sessions SET end_time = ?, duration = ? - start_time WHERE id = ?\<close>\<close>

definition close_stale :: "real \<Rightarrow> int \<Rightarrow> database \<Rightarrow> database" where
  "close_stale now rid db =
     db\<lparr>sessions :=
          map (\<lambda>r. if s_id r = rid
                    then r\<lparr>s_end_time := Some now, s_duration := now - s_start_time r\<rparr>
                    else r)
              (sessions db)\<rparr>"

text \<open>\<^verbatim>\<open>INSERT INTO sessions (room_id, start_time) VALUES (?, ?)\<close>: the other columns take
  their defaults; the first component is \<^verbatim>\<open>cursor.lastrowid\<close>.\<close>

definition insert_session :: "int \<Rightarrow> real \<Rightarrow> database \<Rightarrow> int \<times> database" where
  "insert_session room now db =
     (let sid = next_id (map s_id (sessions db))
      in (sid,
          db\<lparr>sessions := sessions db @
               [\<lparr>s_id = sid, s_room_id = room, s_start_time = now, s_end_time = None,
                 s_duration = 0, s_total_gift_count = 0, s_total_gift_value = 0,
                 s_gift_user_count = 0, s_summary_json = None\<rparr>]\<rparr>))"

text \<open>\<^verbatim>\<open>INSERT INTO gifts (session_id, timestamp, user_name, ...) VALUES (...)\<close>. SQLite does
  not enforce the foreign key unless asked to, and the module does not ask.\<close>

definition insert_gift ::
  "int \<Rightarrow> real \<Rightarrow> string \<Rightarrow> string \<Rightarrow> string \<Rightarrow> string \<Rightarrow> int \<Rightarrow> real \<Rightarrow> database \<Rightarrow> database" where
  "insert_gift sid now uname uid gid gname cnt val db =
     db\<lparr>gift_rows := gift_rows db @
          [\<lparr>g_id = next_id (map g_id (gift_rows db)), g_session_id = sid, g_timestamp = now,
            g_user_name = uname, g_user_id = uid, g_gift_id = gid, g_gift_name = gname,
            g_gift_count = cnt, g_gift_value = val\<rparr>]\<rparr>"

text \<open>\<^verbatim>\<open>UPDATE sessions SET end_time = ?, duration = ?, total_gift_count = ?, ... WHERE id = ?\<close>\<close>

definition finalize_session ::
  "real \<Rightarrow> real \<Rightarrow> int \<Rightarrow> real \<Rightarrow> int \<Rightarrow> json \<Rightarrow> int \<Rightarrow> database \<Rightarrow> database" where
  "finalize_session now duration cnt val users summary sid db =
     db\<lparr>sessions :=
          map (\<lambda>r. if s_id r = sid
                    then r\<lparr>s_end_time := Some now, s_duration := duration,
                           s_total_gift_count := cnt, s_total_gift_value := val,
                           s_gift_user_count := users, s_summary_json := Some summary\<rparr>
                    else r)
              (sessions db)\<rparr>"

text \<open>\<^verbatim>\<open>LIMIT ?\<close>: SQLite reads a negative bound as no bound.\<close>

definition sql_limit :: "int \<Rightarrow> 'a list \<Rightarrow> 'a list" where
  "sql_limit limit rows = (if limit < 0 then rows else take (nat limit) rows)"

text \<open>
  \<^verbatim>\<open>SELECT ... FROM sessions WHERE room_id = ? AND end_time IS NOT NULL
  ORDER BY start_time DESC LIMIT ?\<close>. SQL leaves the order of rows with equal start times
  open; the model keeps them in table order.
\<close>

definition select_history :: "int \<Rightarrow> int \<Rightarrow> database \<Rightarrow> session_row list" where
  "select_history room limit db =
     sql_limit limit
       (sorted_reverse s_start_time
          (filter (\<lambda>r. s_room_id r = room \<and> s_end_time r \<noteq> None) (sessions db)))"

section \<open>The session store\<close>

text \<open>
  What the module sends to the logger: the level and which message (the texts are format
  strings over the values kept here).
\<close>

datatype log_level = Debug | Warning

datatype log_msg =
    DatabaseInitialised
  | StaleSessionClosed int
  | SessionStarted int int
  | GiftNotRecorded int
  | NoActiveSession int
  | SessionEnded int int real int

text \<open>
  The calls of the durable layer that can raise \<^verbatim>\<open>sqlite3.Error\<close>. The module has no
  \<^verbatim>\<open>try\<close>: an exception raised inside an operation leaves the operation at that point.
  Which call fails, if any, is an input of each operation (the \<open>fault\<close> argument), as is
  the reading of the clock (\<open>now\<close>, for \<^verbatim>\<open>time.time()\<close>).
\<close>

datatype db_call =
  SelectOpen | UpdateStale | InsertSession | InsertGift | UpdateFinal | SelectHistory | Commit

datatype error = sqlite3_Error db_call

text \<open>
  The store: the active sessions by room, the database as the store's connection reads it
  (with the statements executed since the last commit), the database as committed, and the
  log written so far.
\<close>

record SessionStore =
  active_sessions :: "int \<rightharpoonup> SessionStats"
  conn :: database
  disk :: database
  logged :: "(log_level \<times> log_msg) list"

text \<open>\<^verbatim>\<open>__init__\<close> over the database file found in the data directory (\<^const>\<open>empty_db\<close> when
  there is none): \<^verbatim>\<open>CREATE TABLE IF NOT EXISTS\<close> keeps the rows of an existing file.\<close>

definition new_SessionStore :: "database \<Rightarrow> SessionStore" where
  "new_SessionStore db =
     \<lparr>active_sessions = Map.empty, conn = db, disk = db,
      logged = [(Debug, DatabaseInitialised)]\<rparr>"

definition start_session ::
  "int \<Rightarrow> real \<Rightarrow> db_call option \<Rightarrow> SessionStore \<Rightarrow> (error + SessionStats) \<times> SessionStore" where
  "start_session room now fault self =
     (if fault = Some SelectOpen then (Inl (sqlite3_Error SelectOpen), self)
      else
        let row = select_open room (conn self) in
        if row \<noteq> None \<and> fault = Some UpdateStale then (Inl (sqlite3_Error UpdateStale), self)
        else
          let self1 =
                (case row of
                   None \<Rightarrow> self
                 | Some r \<Rightarrow>
                     self\<lparr>conn := close_stale now (s_id r) (conn self),
                          logged := logged self @ [(Warning, StaleSessionClosed room)]\<rparr>)
          in
          if fault = Some InsertSession then (Inl (sqlite3_Error InsertSession), self1)
          else
            let (sid, db) = insert_session room now (conn self1);
                self2 = self1\<lparr>conn := db\<rparr>
            in
            if fault = Some Commit then (Inl (sqlite3_Error Commit), self2)
            else
              let stats = new_SessionStats (Some sid) room now
              in (Inr stats,
                  self2\<lparr>disk := db,
                        active_sessions := (active_sessions self2)(room \<mapsto> stats),
                        logged := logged self2 @ [(Debug, SessionStarted room sid)]\<rparr>))"

definition add_gift ::
  "int \<Rightarrow> string \<Rightarrow> string \<Rightarrow> string \<Rightarrow> string \<Rightarrow> int \<Rightarrow> real \<Rightarrow> real \<Rightarrow> db_call option \<Rightarrow>
   SessionStore \<Rightarrow> (error + bool) \<times> SessionStore" where
  "add_gift room uname uid gid gname cnt val now fault self =
     (case active_sessions self room of
        None \<Rightarrow> (Inr False, self\<lparr>logged := logged self @ [(Warning, GiftNotRecorded room)]\<rparr>)
      | Some stats \<Rightarrow>
          (case session_id stats of
             None \<Rightarrow>
               (Inr False, self\<lparr>logged := logged self @ [(Warning, GiftNotRecorded room)]\<rparr>)
           | Some sid \<Rightarrow>
               let event = \<lparr>timestamp = now, user_name = uname, user_id = uid, gift_id = gid,
                            gift_name = gname, gift_count = cnt, gift_value = val\<rparr>;
                   self1 = self\<lparr>active_sessions :=
                                  (active_sessions self)(room \<mapsto> stats_add_gift stats event)\<rparr>
               in
               if fault = Some InsertGift then (Inl (sqlite3_Error InsertGift), self1)
               else
                 let db = insert_gift sid now uname uid gid gname cnt val (conn self1);
                     self2 = self1\<lparr>conn := db\<rparr>
                 in
                 if fault = Some Commit then (Inl (sqlite3_Error Commit), self2)
                 else (Inr True, self2\<lparr>disk := db\<rparr>)))"

definition end_session ::
  "int \<Rightarrow> real \<Rightarrow> db_call option \<Rightarrow> SessionStore \<Rightarrow>
   (error + SessionStats option) \<times> SessionStore" where
  "end_session room now fault self =
     (let popped = active_sessions self room;
          self0 = self\<lparr>active_sessions := (active_sessions self)(room := None)\<rparr>
      in
      case popped of
        None \<Rightarrow> (Inr None, self0\<lparr>logged := logged self0 @ [(Warning, NoActiveSession room)]\<rparr>)
      | Some stats0 \<Rightarrow>
          (case session_id stats0 of
             None \<Rightarrow>
               (Inr None, self0\<lparr>logged := logged self0 @ [(Warning, NoActiveSession room)]\<rparr>)
           | Some sid \<Rightarrow>
               let duration = now - start_time stats0;
                   unique_users = get_unique_users stats0;
                   stats = stats0\<lparr>gift_user_count := int (card unique_users)\<rparr>;
                   summary = summary_of stats
               in
               if fault = Some UpdateFinal then (Inl (sqlite3_Error UpdateFinal), self0)
               else
                 let db = finalize_session now duration (total_gift_count stats)
                            (total_gift_value stats) (gift_user_count stats)
                            (json_dumps summary) sid (conn self0);
                     self1 = self0\<lparr>conn := db\<rparr>
                 in
                 if fault = Some Commit then (Inl (sqlite3_Error Commit), self1)
                 else
                   (Inr (Some stats),
                    self1\<lparr>disk := db,
                          logged := logged self1 @
                            [(Debug, SessionEnded room sid duration (total_gift_count stats))]\<rparr>)))"

definition get_active_session :: "int \<Rightarrow> SessionStore \<Rightarrow> SessionStats option" where
  "get_active_session room self = active_sessions self room"

text \<open>One dictionary of the list that \<^verbatim>\<open>get_session_history\<close> returns. The summary is
  decoded when the column holds a text; a text that \<^verbatim>\<open>json.dumps\<close> wrote is never empty.\<close>

record history_entry =
  h_id :: int
  h_room_id :: int
  h_start_time :: real
  h_end_time :: "real option"
  h_duration :: real
  h_total_gift_count :: int
  h_total_gift_value :: real
  h_gift_user_count :: int
  h_summary :: "pyval option"

definition entry_of_row :: "session_row \<Rightarrow> history_entry" where
  "entry_of_row row =
     \<lparr>h_id = s_id row, h_room_id = s_room_id row, h_start_time = s_start_time row,
      h_end_time = s_end_time row, h_duration = s_duration row,
      h_total_gift_count = s_total_gift_count row,
      h_total_gift_value = s_total_gift_value row,
      h_gift_user_count = s_gift_user_count row,
      h_summary = (case s_summary_json row of
                     Some text \<Rightarrow> Some (json_loads text)
                   | None \<Rightarrow> None)\<rparr>"

definition get_session_history ::
  "int \<Rightarrow> int \<Rightarrow> db_call option \<Rightarrow> SessionStore \<Rightarrow>
   (error + history_entry list) \<times> SessionStore" where
  "get_session_history room limit fault self =
     (if fault = Some SelectHistory then (Inl (sqlite3_Error SelectHistory), self)
      else (Inr (map entry_of_row (select_history room limit (conn self))), self))"

text \<open>\<^verbatim>\<open>close()\<close>: closing the connection drops what was executed and not committed; the next
  operation opens a new connection to the file.\<close>

definition close :: "SessionStore \<Rightarrow> SessionStore" where
  "close self = self\<lparr>conn := disk self\<rparr>"

subsection \<open>Runs of the store\<close>

text \<open>
  A call of a public operation with its arguments, the clock reading and the failing
  durable call; \<open>Restart\<close> is the end of the process and a new store over the same file.
\<close>

datatype op =
    StartSession int real "db_call option"
  | AddGift int string string string string int real real "db_call option"
  | EndSession int real "db_call option"
  | GetActiveSession int
  | GetSessionHistory int int "db_call option"
  | Close
  | Restart

fun apply_op :: "SessionStore \<Rightarrow> op \<Rightarrow> SessionStore" where
  "apply_op self (StartSession room now fault) = snd (start_session room now fault self)"
| "apply_op self (AddGift room uname uid gid gname cnt val now fault) =
     snd (add_gift room uname uid gid gname cnt val now fault self)"
| "apply_op self (EndSession room now fault) = snd (end_session room now fault self)"
| "apply_op self (GetActiveSession room) = self"
| "apply_op self (GetSessionHistory room limit fault) =
     snd (get_session_history room limit fault self)"
| "apply_op self Close = close self"
| "apply_op self Restart = new_SessionStore (disk self)"

definition run :: "op list \<Rightarrow> SessionStore \<Rightarrow> SessionStore" where
  "run ops self = foldl apply_op self ops"


section \<open>Notions of the specification\<close>





text \<open>The open sessions of a room, and the invariant of the sessions table.\<close>

definition open_rows :: "int \<Rightarrow> database \<Rightarrow> session_row list" where
  "open_rows room db = filter (\<lambda>r. s_room_id r = room \<and> s_end_time r = None) (sessions db)"

definition one_open_per_room :: "database \<Rightarrow> bool" where
  "one_open_per_room db \<longleftrightarrow> (\<forall>room. length (open_rows room db) \<le> 1)"



text \<open>
  The database after the first two statements of \<^verbatim>\<open>start_session\<close> (the lookup of an open
  session of the room and, when there is one, its update), and the changes that one
  operation of the store can make to the database.
\<close>

definition stale_closed :: "int \<Rightarrow> real \<Rightarrow> database \<Rightarrow> database" where
  "stale_closed room now db =
     (case select_open room db of None \<Rightarrow> db | Some r \<Rightarrow> close_stale now (s_id r) db)"

inductive db_step :: "database \<Rightarrow> database \<Rightarrow> bool" where
  stale: "db_step db (stale_closed room now db)"
| start: "db_step db (snd (insert_session room now (stale_closed room now db)))"
| gift: "db_step db (insert_gift sid now uname uid gid gname cnt val db)"
| final: "db_step db (finalize_session now duration cnt val users summary sid db)"



text \<open>The store of a new installation: no database file yet.\<close>

definition fresh_store :: SessionStore where
  "fresh_store = new_SessionStore empty_db"

subsection \<open>Example inputs\<close>





text \<open>The store after one session has been started in room 42 at time 100, and the row of
  that session.\<close>

definition one_session :: SessionStore where
  "one_session = snd (start_session 42 100 None fresh_store)"

definition first_row :: session_row where
  "first_row =
     \<lparr>s_id = 1, s_room_id = 42, s_start_time = 100, s_end_time = None, s_duration = 0,
      s_total_gift_count = 0, s_total_gift_value = 0, s_gift_user_count = 0,
      s_summary_json = None\<rparr>"







section \<open>Running totals\<close>




lemma unique_users_list_set:
  "set (unique_users_list self) = get_unique_users self \<and> distinct (unique_users_list self)"
  by (simp add: unique_users_list_def get_unique_users_def)

section \<open>The dictionary of group totals\<close>










subsection \<open>Groups appear in the order in which they are first seen\<close>





section \<open>The stable descending sort\<close>










section \<open>The rankings\<close>

















section \<open>The database under the operations of the store\<close>

lemma start_session_conn:
  "conn (snd (start_session room now fault self)) = conn self \<or>
   conn (snd (start_session room now fault self)) = stale_closed room now (conn self) \<or>
   conn (snd (start_session room now fault self)) =
     snd (insert_session room now (stale_closed room now (conn self)))"
  by (auto simp: start_session_def stale_closed_def Let_def split: option.splits prod.splits)

lemma start_session_disk:
  "disk (snd (start_session room now fault self)) = disk self \<or>
   disk (snd (start_session room now fault self)) = conn (snd (start_session room now fault self))"
  by (auto simp: start_session_def Let_def split: option.splits prod.splits)

lemma add_gift_conn:
  "conn (snd (add_gift room uname uid gid gname cnt val now fault self)) = conn self \<or>
   (\<exists>sid. conn (snd (add_gift room uname uid gid gname cnt val now fault self)) =
      insert_gift sid now uname uid gid gname cnt val (conn self))"
  by (simp add: add_gift_def Let_def split: option.splits) blast

lemma add_gift_disk:
  "disk (snd (add_gift room uname uid gid gname cnt val now fault self)) = disk self \<or>
   disk (snd (add_gift room uname uid gid gname cnt val now fault self)) =
     conn (snd (add_gift room uname uid gid gname cnt val now fault self))"
  by (auto simp: add_gift_def Let_def split: option.splits)

lemma end_session_conn:
  "conn (snd (end_session room now fault self)) = conn self \<or>
   (\<exists>duration cnt val users summary sid.
      conn (snd (end_session room now fault self)) =
        finalize_session now duration cnt val users summary sid (conn self))"
  by (simp add: end_session_def Let_def split: option.splits) blast

lemma end_session_disk:
  "disk (snd (end_session room now fault self)) = disk self \<or>
   disk (snd (end_session room now fault self)) = conn (snd (end_session room now fault self))"
  by (auto simp: end_session_def Let_def split: option.splits)

lemma apply_op_conn:
  "conn (apply_op self c) = conn self \<or> conn (apply_op self c) = disk self \<or>
   db_step (conn self) (conn (apply_op self c))"
proof (cases c)
  case (StartSession room now fault)
  then show ?thesis
    using start_session_conn[of room now fault self] by (auto intro: db_step.intros)
next
  case (AddGift room uname uid gid gname cnt val now fault)
  then show ?thesis
    using add_gift_conn[of room uname uid gid gname cnt val now fault self]
    by (auto intro: db_step.intros)
next
  case (EndSession room now fault)
  then show ?thesis
    using end_session_conn[of room now fault self] by (auto intro: db_step.intros)
qed (simp_all add: get_session_history_def close_def new_SessionStore_def)

lemma apply_op_disk:
  "disk (apply_op self c) = disk self \<or> disk (apply_op self c) = conn (apply_op self c)"
proof (cases c)
  case (StartSession room now fault)
  then show ?thesis using start_session_disk[of room now fault self] by auto
next
  case (AddGift room uname uid gid gname cnt val now fault)
  then show ?thesis
    using add_gift_disk[of room uname uid gid gname cnt val now fault self] by auto
next
  case (EndSession room now fault)
  then show ?thesis using end_session_disk[of room now fault self] by auto
qed (simp_all add: get_session_history_def close_def new_SessionStore_def)

lemma run_snoc: "run (cs @ [c]) self = apply_op (run cs self) c"
  by (simp add: run_def)

lemma run_db_invariant:
  assumes step: "\<And>db db'. db_step db db' \<Longrightarrow> I db \<Longrightarrow> I db'"
    and init: "I (conn self)" "I (disk self)"
  shows "I (conn (run cs self)) \<and> I (disk (run cs self))"
proof (induction cs rule: rev_induct)
  case Nil
  show ?case using init by (simp add: run_def)
next
  case (snoc c cs)
  let ?s = "run cs self"
  have c: "I (conn (apply_op ?s c))"
    using apply_op_conn[of ?s c] snoc step by auto
  have "I (disk (apply_op ?s c))"
    using apply_op_disk[of ?s c] snoc c by auto
  with c show ?case by (simp add: run_snoc)
qed

subsection \<open>Ids and defaults\<close>

lemma fold_max_ge: "(a::int) \<le> fold max ids a"
  by (induction ids arbitrary: a) (auto intro: order_trans[OF max.cobounded2])

lemma fold_max_mem: "i \<in> set ids \<Longrightarrow> (i::int) \<le> fold max ids a"
proof (induction ids arbitrary: a)
  case Nil
  then show ?case by simp
next
  case (Cons j ids)
  show ?case
  proof (cases "i = j")
    case True
    have "j \<le> max j a" by simp
    also have "\<dots> \<le> fold max ids (max j a)" by (rule fold_max_ge)
    finally show ?thesis using True by simp
  next
    case False
    with Cons show ?thesis by simp
  qed
qed

lemma next_id_fresh: "i \<in> set ids \<Longrightarrow> i < next_id ids"
  using fold_max_mem[of i ids 0] by (simp add: next_id_def)

lemma next_id_positive: "0 < next_id ids"
  using fold_max_ge[of 0 ids] by (simp add: next_id_def)

lemma sessions_close_stale:
  "sessions (close_stale now rid db) =
     map (\<lambda>r. if s_id r = rid
               then r\<lparr>s_end_time := Some now, s_duration := now - s_start_time r\<rparr> else r)
       (sessions db)"
  by (simp add: close_stale_def)

lemma sessions_finalize:
  "sessions (finalize_session now duration cnt val users summary sid db) =
     map (\<lambda>r. if s_id r = sid
               then r\<lparr>s_end_time := Some now, s_duration := duration,
                      s_total_gift_count := cnt, s_total_gift_value := val,
                      s_gift_user_count := users, s_summary_json := Some summary\<rparr>
               else r)
       (sessions db)"
  by (simp add: finalize_session_def)

lemma sessions_insert_session:
  "sessions (snd (insert_session room now db)) =
     sessions db @
       [\<lparr>s_id = next_id (map s_id (sessions db)), s_room_id = room, s_start_time = now,
         s_end_time = None, s_duration = 0, s_total_gift_count = 0, s_total_gift_value = 0,
         s_gift_user_count = 0, s_summary_json = None\<rparr>]"
  by (simp add: insert_session_def Let_def)

lemma sessions_insert_gift:
  "sessions (insert_gift sid now uname uid gid gname cnt val db) = sessions db"
  by (simp add: insert_gift_def)

lemma ids_close_stale: "map s_id (sessions (close_stale now rid db)) = map s_id (sessions db)"
  by (simp add: sessions_close_stale comp_def if_distrib[of s_id] cong: if_cong)







subsection \<open>At most one open session per room\<close>

lemma length_filter_mono:
  "(\<And>x. x \<in> set xs \<Longrightarrow> Q x \<Longrightarrow> P x) \<Longrightarrow> length (filter Q xs) \<le> length (filter P xs)"
  by (induction xs) auto

lemma open_rows_close_stale_le:
  "length (open_rows room (close_stale now rid db)) \<le> length (open_rows room db)"
proof -
  let ?f = "\<lambda>r. if s_id r = rid
               then r\<lparr>s_end_time := Some now, s_duration := now - s_start_time r\<rparr> else r"
  let ?P = "\<lambda>r. s_room_id r = room \<and> s_end_time r = None"
  have "length (open_rows room (close_stale now rid db)) =
        length (filter (?P \<circ> ?f) (sessions db))"
    by (simp add: open_rows_def sessions_close_stale filter_map)
  also have "\<dots> \<le> length (filter ?P (sessions db))"
    by (rule length_filter_mono) (auto split: if_splits)
  finally show ?thesis by (simp add: open_rows_def)
qed

lemma open_rows_finalize_le:
  "length (open_rows room (finalize_session now duration cnt val users summary sid db))
     \<le> length (open_rows room db)"
proof -
  let ?f = "\<lambda>r. if s_id r = sid
               then r\<lparr>s_end_time := Some now, s_duration := duration,
                      s_total_gift_count := cnt, s_total_gift_value := val,
                      s_gift_user_count := users, s_summary_json := Some summary\<rparr>
               else r"
  let ?P = "\<lambda>r. s_room_id r = room \<and> s_end_time r = None"
  have "length (open_rows room (finalize_session now duration cnt val users summary sid db)) =
        length (filter (?P \<circ> ?f) (sessions db))"
    by (simp add: open_rows_def sessions_finalize filter_map)
  also have "\<dots> \<le> length (filter ?P (sessions db))"
    by (rule length_filter_mono) (auto split: if_splits)
  finally show ?thesis by (simp add: open_rows_def)
qed

lemma open_rows_stale_closed_le:
  "length (open_rows room' (stale_closed room now db)) \<le> length (open_rows room' db)"
  by (simp add: stale_closed_def open_rows_close_stale_le split: option.split)

lemma select_open_None: "select_open room db = None \<Longrightarrow> open_rows room db = []"
  by (auto simp: select_open_def open_rows_def find_None_iff filter_empty_conv)

lemma select_open_Some:
  "select_open room db = Some r \<Longrightarrow>
   r \<in> set (sessions db) \<and> s_room_id r = room \<and> s_end_time r = None"
  by (auto simp: select_open_def find_Some_iff)

lemma select_open_only:
  assumes "select_open room db = Some r" and "length (open_rows room db) \<le> 1"
  shows "open_rows room db = [r]"
proof -
  from select_open_Some[OF assms(1)] have "r \<in> set (open_rows room db)"
    by (simp add: open_rows_def)
  with assms(2) show ?thesis
    by (cases "open_rows room db") auto
qed

lemma open_rows_stale_closed_empty:
  assumes "length (open_rows room db) \<le> 1"
  shows "open_rows room (stale_closed room now db) = []"
proof (cases "select_open room db")
  case None
  then show ?thesis by (simp add: stale_closed_def select_open_None)
next
  case (Some r)
  from select_open_only[OF Some assms] have only: "open_rows room db = [r]" .
  have "\<And>x. x \<in> set (sessions db) \<Longrightarrow> s_room_id x = room \<Longrightarrow> s_end_time x = None \<Longrightarrow> x = r"
  proof -
    fix x assume "x \<in> set (sessions db)" "s_room_id x = room" "s_end_time x = None"
    then have "x \<in> set (open_rows room db)" by (simp add: open_rows_def)
    with only show "x = r" by simp
  qed
  then show ?thesis
    using Some
    by (auto simp: stale_closed_def open_rows_def sessions_close_stale filter_empty_conv
          split: if_splits)
qed

lemma open_rows_insert_session:
  "open_rows room' (snd (insert_session room now db)) =
     open_rows room' db @
       (if room' = room
        then [\<lparr>s_id = next_id (map s_id (sessions db)), s_room_id = room, s_start_time = now,
                s_end_time = None, s_duration = 0, s_total_gift_count = 0,
                s_total_gift_value = 0, s_gift_user_count = 0, s_summary_json = None\<rparr>]
        else [])"
  by (simp add: open_rows_def sessions_insert_session)

lemma one_open_step: "db_step db db' \<Longrightarrow> one_open_per_room db \<Longrightarrow> one_open_per_room db'"
proof (induction rule: db_step.induct)
  case (stale db room now)
  then show ?case
    unfolding one_open_per_room_def
    by (meson le_trans open_rows_stale_closed_le)
next
  case (start db room now)
  show ?case
    unfolding one_open_per_room_def
  proof
    fix room'
    show "length (open_rows room' (snd (insert_session room now (stale_closed room now db)))) \<le> 1"
    proof (cases "room' = room")
      case True
      have "open_rows room (stale_closed room now db) = []"
        using start by (simp add: one_open_per_room_def open_rows_stale_closed_empty)
      then show ?thesis using True by (simp add: open_rows_insert_session)
    next
      case False
      have "length (open_rows room' (stale_closed room now db)) \<le> length (open_rows room' db)"
        by (rule open_rows_stale_closed_le)
      also have "\<dots> \<le> 1" using start by (simp add: one_open_per_room_def)
      finally show ?thesis using False by (simp add: open_rows_insert_session)
    qed
  qed
next
  case (gift db sid now uname uid gid gname cnt val)
  then show ?case by (simp add: one_open_per_room_def open_rows_def sessions_insert_gift)
next
  case (final db now duration cnt val users summary sid)
  then show ?case
    unfolding one_open_per_room_def
    by (meson le_trans open_rows_finalize_le)
qed

text \<open>
  Claim C6. In every state that a sequence of operations of the store reaches from a new
  installation (calls with any arguments and clock readings, with or without a failing
  durable call, closing the connection, restarting the process), the sessions table has
  at most one row per room with a null end time, in the connection's view and on disk.
\<close>

theorem one_open_session_per_room:
  "one_open_per_room (conn (run cs fresh_store)) \<and> one_open_per_room (disk (run cs fresh_store))"
proof (rule run_db_invariant)
  show "one_open_per_room (conn fresh_store)" "one_open_per_room (disk fresh_store)"
    by (simp_all add: fresh_store_def new_SessionStore_def empty_db_def one_open_per_room_def
        open_rows_def)
qed (rule one_open_step)
section \<open>The operations of the store\<close>

lemmas store_eval =
  fresh_store_def start_session_def add_gift_def end_session_def new_SessionStore_def empty_db_def
  select_open_def close_stale_def insert_session_def insert_gift_def finalize_session_def
  next_id_def new_SessionStats_def stats_add_gift_def get_unique_users_def
  get_active_session_def


subsection \<open>The active sessions after an operation\<close>











text \<open>
  Claim C7. After \<open>end_session\<close> for a room, \<open>get_active_session\<close> for that room returns
  none: whether a session was active or not, and also when the durable update fails,
  since the aggregate is taken out of the mapping first.
\<close>

theorem end_then_get_active:
  "get_active_session room (snd (end_session room now fault self)) = None"
  by (simp add: end_session_def get_active_session_def Let_def split: option.split)

text \<open>
  Claim C4. For a room with no aggregate registered, \<open>add_gift\<close> returns false and writes
  one warning to the log; the active sessions, the database of the connection and the
  database on disk are those of before.
\<close>

theorem add_gift_without_session:
  assumes "get_active_session room self = None"
  shows "add_gift room uname uid gid gname cnt val now fault self =
           (Inr False, self\<lparr>logged := logged self @ [(Warning, GiftNotRecorded room)]\<rparr>)"
  using assms by (simp add: add_gift_def get_active_session_def)

theorem add_gift_without_session_witness:
  "get_active_session 7 fresh_store = None
   \<and> add_gift 7 ''Alice'' ''u1'' ''g1'' ''Rose'' 3 1 10 None fresh_store =
       (Inr False, fresh_store\<lparr>logged := logged fresh_store @ [(Warning, GiftNotRecorded 7)]\<rparr>)"
proof -
  have h: "get_active_session 7 fresh_store = None"
    by (simp add: get_active_session_def fresh_store_def new_SessionStore_def)
  show ?thesis
    using h add_gift_without_session[OF h, of "''Alice''" "''u1''" "''g1''" "''Rose''" 3 1 10 None]
    by simp
qed

text \<open>
  Claim C3. The run on room 42 from a new installation, at any clock readings: the session
  gets id 1, both gifts are accepted, and the statistics that \<open>end_session\<close> returns have
  a gift count of 4, a gift value of 53, 2 users, and Bob (50) before Alice (3) as top
  users.
\<close>

theorem room_42_scenario:
  "(let (r0, s1) = start_session 42 t0 None fresh_store;
        (r1, s2) = add_gift 42 ''Alice'' ''u1'' ''g1'' ''Rose'' 3 1 t1 None s1;
        (r2, s3) = add_gift 42 ''Bob'' ''u2'' ''g2'' ''Rocket'' 1 50 t2 None s2;
        (r3, s4) = end_session 42 t3 None s3
    in (case r0 of Inr stats \<Rightarrow> session_id stats = Some 1 | Inl e \<Rightarrow> False) \<and>
       r1 = Inr True \<and> r2 = Inr True \<and>
       (case r3 of
          Inr (Some stats) \<Rightarrow>
            total_gift_count stats = 4 \<and> total_gift_value stats = 53 \<and>
            gift_user_count stats = 2 \<and>
            get_top_users stats 5 = [(''Bob'', 50), (''Alice'', 3)]
        | Inr None \<Rightarrow> False
        | Inl e \<Rightarrow> False))"
  by (simp add: store_eval Let_def get_top_users_def aggregate_def dict_get_def slice_to_def)

lemma start_session_ok:
  "start_session room now None self =
     (let db1 = stale_closed room now (conn self);
          sid = next_id (map s_id (sessions db1));
          db2 = snd (insert_session room now db1);
          stats = new_SessionStats (Some sid) room now
      in (Inr stats,
          self\<lparr>conn := db2, disk := db2,
               active_sessions := (active_sessions self)(room \<mapsto> stats),
               logged := logged self @
                 (case select_open room (conn self) of
                    None \<Rightarrow> [] | Some r \<Rightarrow> [(Warning, StaleSessionClosed room)]) @
                 [(Debug, SessionStarted room sid)]\<rparr>))"
  by (simp add: start_session_def stale_closed_def insert_session_def Let_def
        split: option.splits)

lemma start_session_insert_fails:
  "conn (snd (start_session room now (Some InsertSession) self)) =
     stale_closed room now (conn self)"
  by (simp add: start_session_def stale_closed_def Let_def split: option.splits)

text \<open>
  Claim C5, as amended. When the room has an open session \<open>old\<close> in the table,
  \<open>start_session\<close> returns statistics with an id that differs from the id of \<open>old\<close>, and from
  every id of the table; the table afterwards is the old one with \<open>end_time = now\<close> and
  \<open>duration = now - start_time\<close> in the row of \<open>old\<close>, followed by the row of the new session,
  and it is committed. The update comes before the insert: when the insert fails the table
  has the closed row and no new one. The duration is not negative when the clock reading
  \<open>now\<close> is not earlier than the start time that the row of \<open>old\<close> recorded.
\<close>

theorem start_session_closes_stale:
  assumes "select_open room (conn self) = Some old"
  shows "(case start_session room now None self of
            (Inr stats, self') \<Rightarrow>
              (case session_id stats of
                 None \<Rightarrow> False
               | Some sid \<Rightarrow>
                   sid \<noteq> s_id old \<and> sid \<notin> set (map s_id (sessions (conn self))) \<and>
                   sessions (conn self') =
                     sessions (close_stale now (s_id old) (conn self)) @
                       [\<lparr>s_id = sid, s_room_id = room, s_start_time = now,
                         s_end_time = None, s_duration = 0, s_total_gift_count = 0,
                         s_total_gift_value = 0, s_gift_user_count = 0,
                         s_summary_json = None\<rparr>] \<and>
                   disk self' = conn self')
          | (Inl e, self') \<Rightarrow> False)
         \<and> old\<lparr>s_end_time := Some now, s_duration := now - s_start_time old\<rparr>
             \<in> set (sessions (close_stale now (s_id old) (conn self)))
         \<and> conn (snd (start_session room now (Some InsertSession) self)) =
             close_stale now (s_id old) (conn self)
         \<and> (s_start_time old \<le> now \<longrightarrow>
              0 \<le> s_duration (old\<lparr>s_end_time := Some now,
                                   s_duration := now - s_start_time old\<rparr>))"
proof -
  have sc: "stale_closed room now (conn self) = close_stale now (s_id old) (conn self)"
    using assms by (simp add: stale_closed_def)
  have mem: "old \<in> set (sessions (conn self))"
    using select_open_Some[OF assms] by simp
  then have fresh: "s_id old < next_id (map s_id (sessions (conn self)))"
    by (intro next_id_fresh) simp
  have fresh_all: "next_id (map s_id (sessions (conn self))) \<notin> set (map s_id (sessions (conn self)))"
    using next_id_fresh[of "next_id (map s_id (sessions (conn self)))" "map s_id (sessions (conn self))"]
    by auto
  have a: "old\<lparr>s_end_time := Some now, s_duration := now - s_start_time old\<rparr>
             \<in> set (sessions (close_stale now (s_id old) (conn self)))"
    using mem by (force simp: sessions_close_stale)
  have b: "conn (snd (start_session room now (Some InsertSession) self)) =
             close_stale now (s_id old) (conn self)"
    by (simp add: start_session_insert_fails sc)
  show ?thesis
    using a b fresh fresh_all
    by (simp add: start_session_ok sc Let_def new_SessionStats_def sessions_insert_session
          ids_close_stale)
qed

theorem start_session_closes_stale_witness:
  "select_open 42 (conn one_session) = Some first_row
   \<and> fst (start_session 42 160 None one_session) = Inr (new_SessionStats (Some 2) 42 160)
   \<and> sessions (conn (snd (start_session 42 160 None one_session))) =
       [first_row\<lparr>s_end_time := Some 160, s_duration := 60\<rparr>,
        first_row\<lparr>s_id := 2, s_start_time := 160\<rparr>]
   \<and> sessions (conn (snd (start_session 42 160 (Some InsertSession) one_session))) =
       [first_row\<lparr>s_end_time := Some 160, s_duration := 60\<rparr>]"
proof -
  have h: "select_open 42 (conn one_session) = Some first_row"
    by (simp add: one_session_def first_row_def store_eval Let_def)
  have v: "fst (start_session 42 160 None one_session) = Inr (new_SessionStats (Some 2) 42 160)"
    "sessions (conn (snd (start_session 42 160 None one_session))) =
       [first_row\<lparr>s_end_time := Some 160, s_duration := 60\<rparr>,
        first_row\<lparr>s_id := 2, s_start_time := 160\<rparr>]"
    "sessions (conn (snd (start_session 42 160 (Some InsertSession) one_session))) =
       [first_row\<lparr>s_end_time := Some 160, s_duration := 60\<rparr>]"
    by (simp_all add: one_session_def first_row_def store_eval Let_def)
  show ?thesis
    using h v start_session_closes_stale[OF h, of 160] by simp
qed

text \<open>Claim C5 as stated fails when the clock has been set back between the two starts
  (\<^verbatim>\<open>time.time()\<close> is the wall clock): started at 100 and closed at 50, the old session
  gets a duration of -50.\<close>

theorem stale_duration_counterexample:
  "select_open 42 (conn one_session) = Some first_row
   \<and> map s_end_time (sessions (conn (snd (start_session 42 50 None one_session)))) =
       [Some 50, None]
   \<and> map s_duration (sessions (conn (snd (start_session 42 50 None one_session)))) = [- 50, 0]"
  by (simp add: one_session_def first_row_def store_eval Let_def)







section \<open>Runs without failing durable calls\<close>



















section \<open>The forced close of a stale session\<close>






section \<open>The history of a room\<close>



















end
